theory Spec2Isabelle
  imports Complex_Main
begin

section \<open>The crash-detector tracker (enhanced\_tracker.py)\<close>

text \<open>
  A shallow embedding of the risk-scoring and trend-analysis pipeline of
  \<^verbatim>\<open>enhanced_tracker.py\<close>. Python floats are idealised as real numbers
  (comparisons against the thresholds are exact under this reading; the non-finite floats
  \<^verbatim>\<open>inf\<close> and \<^verbatim>\<open>nan\<close> are outside the model). A Python value that
  may be \<^verbatim>\<open>None\<close> is an \<open>option\<close>; an exception that leaves a function is
  the \<open>Inl\<close> branch of a sum.
\<close>

subsection \<open>Configuration constants\<close>

definition JPY_STRESS_THRESHOLD :: real where "JPY_STRESS_THRESHOLD = 155.0"
definition JPY_CRITICAL_THRESHOLD :: real where "JPY_CRITICAL_THRESHOLD = 160.0"
definition CNH_STRESS_THRESHOLD :: real where "CNH_STRESS_THRESHOLD = 7.3"
definition CNH_CRITICAL_THRESHOLD :: real where "CNH_CRITICAL_THRESHOLD = 7.5"
definition MOVE_PROXY_HIGH :: real where "MOVE_PROXY_HIGH = 60.0"
definition MOVE_PROXY_CRITICAL :: real where "MOVE_PROXY_CRITICAL = 80.0"
definition JPY_VOLATILITY_THRESHOLD :: real where "JPY_VOLATILITY_THRESHOLD = 2.0"

lemmas thresholds =
  JPY_STRESS_THRESHOLD_def JPY_CRITICAL_THRESHOLD_def CNH_STRESS_THRESHOLD_def
  CNH_CRITICAL_THRESHOLD_def MOVE_PROXY_HIGH_def MOVE_PROXY_CRITICAL_def
  JPY_VOLATILITY_THRESHOLD_def

subsection \<open>Truthiness\<close>

text \<open>
  Python's \<^verbatim>\<open>if x:\<close> on an optional float is false for \<^verbatim>\<open>None\<close> and
  for \<^verbatim>\<open>0.0\<close>; on an optional string it is false for \<^verbatim>\<open>None\<close> and for
  the empty string.
\<close>

fun truthy :: "real option \<Rightarrow> bool" where
  "truthy None = False"
| "truthy (Some x) = (x \<noteq> 0)"

fun truthy_str :: "string option \<Rightarrow> bool" where
  "truthy_str None = False"
| "truthy_str (Some s) = (s \<noteq> [])"

subsection \<open>Signal classifier\<close>

text \<open>
  \<^verbatim>\<open>determine_signal(metric_name, value, volatility=None)\<close>. The branches are in
  the order of the source; a metric branch in which no threshold is met falls out of the
  \<^verbatim>\<open>if\<close>/\<^verbatim>\<open>elif\<close> chain to the final \<^verbatim>\<open>return "NORMAL"\<close>.
\<close>

definition volatility_gate :: "real option \<Rightarrow> bool" where
  \<comment> \<open>\<^verbatim>\<open>volatility and volatility >= JPY_VOLATILITY_THRESHOLD\<close>\<close>
  "volatility_gate volatility =
    (case volatility of
       None \<Rightarrow> False
     | Some vol \<Rightarrow> vol \<noteq> 0 \<and> vol \<ge> JPY_VOLATILITY_THRESHOLD)"

definition jpy_volatile_signal :: "real \<Rightarrow> string option" where
  \<comment> \<open>the two returns inside the volatility gate; \<open>None\<close>: neither is taken\<close>
  "jpy_volatile_signal v =
    (if v \<ge> JPY_CRITICAL_THRESHOLD then Some ''CRITICAL SHOCK''
     else if v \<ge> JPY_STRESS_THRESHOLD then Some ''HIGH STRESS + HIGH VOLATILITY''
     else None)"

definition determine_signal :: "string \<Rightarrow> real option \<Rightarrow> real option \<Rightarrow> string" where
  "determine_signal metric_name value volatility =
    (case value of
       None \<Rightarrow> ''DATA ERROR''
     | Some v \<Rightarrow>
        if metric_name = ''USD/JPY Exchange Rate'' then
          (case (if volatility_gate volatility then jpy_volatile_signal v else None) of
             Some s \<Rightarrow> s
           | None \<Rightarrow>
              if v \<ge> JPY_CRITICAL_THRESHOLD then ''CRITICAL SHOCK''
              else if v \<ge> JPY_STRESS_THRESHOLD then ''HIGH STRESS''
              else if v > 145.0 then ''RISING STRESS''
              else ''NORMAL'')
        else if metric_name = ''USD/CNH (Offshore Yuan) Value'' then
          (if v \<ge> CNH_CRITICAL_THRESHOLD then ''CRITICAL SHOCK''
           else if v \<ge> CNH_STRESS_THRESHOLD then ''HIGH STRESS''
           else if v > 7.15 then ''RISING STRESS''
           else ''NORMAL'')
        else if metric_name = ''MOVE Index Volatility (Proxy)'' then
          (if v \<ge> MOVE_PROXY_CRITICAL then ''CRITICAL SHOCK''
           else if v \<ge> MOVE_PROXY_HIGH then ''HIGH STRESS''
           else if v > 40.0 then ''RISING STRESS''
           else ''NORMAL'')
        else if metric_name = ''10-Year Treasury Yield'' then
          (if v \<ge> 5.5 then ''CRITICAL SHOCK''
           else if v \<ge> 5.0 then ''HIGH STRESS''
           else if v \<ge> 4.5 then ''RISING STRESS''
           else ''NORMAL'')
        else ''NORMAL'')"

subsection \<open>Metrics and the composite risk scorer\<close>

text \<open>
  A metric is the dictionary the tracker builds for each observation. The keys
  \<^verbatim>\<open>name\<close> and \<^verbatim>\<open>value\<close> are read with \<^verbatim>\<open>metric[...]\<close> and are
  always present; \<^verbatim>\<open>signal\<close> is read with \<^verbatim>\<open>metric.get('signal', 'NORMAL')\<close>
  and \<^verbatim>\<open>volatility_24h\<close> is written for one metric only, so both are optional.
  The value is the string the tracker writes: a formatted number or \<^verbatim>\<open>"DATA ERROR"\<close>.
\<close>

record metric =
  m_name :: string
  m_value :: string
  m_signal :: "string option"
  m_volatility_24h :: "string option"

record risk_assessment =
  score :: real
  level :: string
  color :: string

definition weights :: "(string \<times> int) list" where
  "weights =
    [(''CRITICAL SHOCK'', 100),
     (''HIGH STRESS + HIGH VOLATILITY'', 80),
     (''HIGH STRESS'', 60),
     (''RISING STRESS'', 30),
     (''NORMAL'', 0),
     (''DATA ERROR'', 0)]"

definition dict_get :: "('k \<times> 'v) list \<Rightarrow> 'k \<Rightarrow> 'v \<Rightarrow> 'v" where
  \<comment> \<open>\<^verbatim>\<open>d.get(key, default)\<close>\<close>
  "dict_get d k dflt = (case map_of d k of Some v \<Rightarrow> v | None \<Rightarrow> dflt)"

definition signal_of :: "metric \<Rightarrow> string" where
  \<comment> \<open>\<^verbatim>\<open>metric.get('signal', 'NORMAL')\<close>\<close>
  "signal_of m = (case m_signal m of Some s \<Rightarrow> s | None \<Rightarrow> ''NORMAL'')"

text \<open>
  The loop over the metrics, with its two accumulators (the source's \<^verbatim>\<open>score\<close> is
  \<open>score_sum\<close> here, the result's field keeps the name \<open>score\<close>).
\<close>

fun score_loop :: "metric list \<Rightarrow> int \<Rightarrow> nat \<Rightarrow> int \<times> nat" where
  "score_loop [] score_sum total_weight = (score_sum, total_weight)"
| "score_loop (m # ms) score_sum total_weight =
     score_loop ms
       (score_sum + dict_get weights (signal_of m) 0)
       (total_weight + (if signal_of m \<noteq> ''DATA ERROR'' then 1 else 0))"

text \<open>
  Python's \<^verbatim>\<open>round(x, n)\<close> on a float rounds to \<open>n\<close> decimals, a tie going to the
  even neighbour. On the idealised reals a tie is an exact tie.
\<close>

definition round_half_even :: "real \<Rightarrow> int" where
  "round_half_even x =
    (let f = \<lfloor>x\<rfloor>; r = x - of_int f
     in if r < 1/2 then f else if r > 1/2 then f + 1 else if even f then f else f + 1)"

definition py_round :: "real \<Rightarrow> nat \<Rightarrow> real" where
  "py_round x n = of_int (round_half_even (x * 10 ^ n)) / 10 ^ n"

definition calculate_composite_risk_score :: "metric list \<Rightarrow> risk_assessment" where
  "calculate_composite_risk_score metrics =
    (case score_loop metrics 0 0 of
       (score_sum, total_weight) \<Rightarrow>
         if total_weight = 0 then
           \<lparr>score = 0, level = ''UNKNOWN'', color = ''#6c757d''\<rparr>
         else
           let avg_score = real_of_int score_sum / real total_weight
           in if avg_score \<ge> 70 then
                \<lparr>score = py_round avg_score 1, level = ''CRITICAL'', color = ''#dc3545''\<rparr>
              else if avg_score \<ge> 45 then
                \<lparr>score = py_round avg_score 1, level = ''ELEVATED'', color = ''#ffc107''\<rparr>
              else if avg_score \<ge> 20 then
                \<lparr>score = py_round avg_score 1, level = ''MODERATE'', color = ''#fd7e14''\<rparr>
              else
                \<lparr>score = py_round avg_score 1, level = ''LOW'', color = ''#28a745''\<rparr>)"

subsection \<open>Reading a float from a string\<close>

text \<open>
  Python's \<^verbatim>\<open>float(s)\<close> on a string: surrounding whitespace is stripped, then an
  optional sign, a decimal number (\<^verbatim>\<open>12\<close>, \<^verbatim>\<open>12.\<close>, \<^verbatim>\<open>12.5\<close>,
  \<^verbatim>\<open>.5\<close>) and an optional exponent must make up the whole string; anything else
  raises \<^verbatim>\<open>ValueError\<close>, here \<open>None\<close>. The spellings of infinity and
  not-a-number and digit groups separated by underscores are not modelled (they read as
  \<open>None\<close>); the tracker writes none of them.
\<close>

definition is_digit :: "char \<Rightarrow> bool" where
  "is_digit c = (c \<in> set ''0123456789'')"

definition is_space :: "char \<Rightarrow> bool" where
  "is_space c = (c \<in> set [CHR '' '', CHR 0x09, CHR 0x0A, CHR 0x0B, CHR 0x0C, CHR 0x0D])"

definition digit_val :: "char \<Rightarrow> nat" where
  "digit_val c = of_char c - 48"

definition digits_val :: "string \<Rightarrow> nat" where
  "digits_val ds = foldl (\<lambda>a c. 10 * a + digit_val c) 0 ds"

definition strip :: "string \<Rightarrow> string" where
  "strip s = rev (dropWhile is_space (rev (dropWhile is_space s)))"

fun parse_sign :: "string \<Rightarrow> int \<times> string" where
  "parse_sign [] = (1, [])"
| "parse_sign (c # r) =
     (if c = CHR ''-'' then (-1, r) else if c = CHR ''+'' then (1, r) else (1, c # r))"

definition parse_number :: "string \<Rightarrow> (real \<times> string) option" where
  "parse_number s =
    (let ip = takeWhile is_digit s; r = dropWhile is_digit s
     in case r of
          [] \<Rightarrow> if ip = [] then None else Some (real (digits_val ip), [])
        | c # r' \<Rightarrow>
            if c = CHR ''.'' then
              (let fp = takeWhile is_digit r'; r'' = dropWhile is_digit r'
               in if ip = [] \<and> fp = [] then None
                  else Some (real (digits_val ip) + real (digits_val fp) / 10 ^ length fp, r''))
            else if ip = [] then None
            else Some (real (digits_val ip), c # r'))"

definition parse_exponent :: "string \<Rightarrow> int option" where
  \<comment> \<open>what follows the number: nothing, or an exponent up to the end of the string\<close>
  "parse_exponent s =
    (case s of
       [] \<Rightarrow> Some 0
     | c # r \<Rightarrow>
         if c = CHR ''e'' \<or> c = CHR ''E'' then
           (case parse_sign r of
              (sg, ds) \<Rightarrow>
                if ds \<noteq> [] \<and> list_all is_digit ds then Some (sg * int (digits_val ds))
                else None)
         else None)"

definition scale10 :: "real \<Rightarrow> int \<Rightarrow> real" where
  "scale10 x e = (if e \<ge> 0 then x * 10 ^ nat e else x / 10 ^ nat (- e))"

definition py_float :: "string \<Rightarrow> real option" where
  "py_float s =
    (case parse_sign (strip s) of
       (sg, r) \<Rightarrow>
         (case parse_number r of
            None \<Rightarrow> None
          | Some (m, r') \<Rightarrow>
              (case parse_exponent r' of
                 None \<Rightarrow> None
               | Some e \<Rightarrow> Some (scale10 (real_of_int sg * m) e))))"

subsection \<open>Snapshots and the history\<close>

text \<open>
  A snapshot is the dictionary \<^verbatim>\<open>final_data\<close> of one cycle; the history is a list
  of them, oldest first. The volatility calculator reads a history entry with
  \<^verbatim>\<open>entry.get('metrics', [])\<close>, so the key \<^verbatim>\<open>metrics\<close> may be absent. An
  insight is whatever JSON value the model's answer holds under the key, or a placeholder
  string.
\<close>

datatype json =
  JNull | JBool bool | JNum real | JStr string | JArr "json list" | JObj "(string \<times> json) list"

record ai_insights =
  stock_picks :: json
  tasi_opportunities :: json

record snapshot =
  s_last_update :: string
  s_target_date :: string
  s_days_remaining :: int
  s_risk_assessment :: risk_assessment
  s_metrics :: "metric list option"
  s_ai_insights :: ai_insights

definition entry_metrics :: "snapshot \<Rightarrow> metric list" where
  \<comment> \<open>\<^verbatim>\<open>entry.get('metrics', [])\<close>\<close>
  "entry_metrics entry = (case s_metrics entry of Some ms \<Rightarrow> ms | None \<Rightarrow> [])"

subsection \<open>Volatility calculator\<close>

text \<open>
  The inner loop over the metrics of one entry. A metric with the name whose value is not
  the marker and reads as a float sets \<^verbatim>\<open>yesterday\<close> and breaks; one that does not
  read as a float is skipped (\<^verbatim>\<open>continue\<close>).
\<close>

fun scan_metrics :: "metric list \<Rightarrow> string \<Rightarrow> real option \<Rightarrow> real option" where
  "scan_metrics [] metric_name yesterday = yesterday"
| "scan_metrics (m # ms) metric_name yesterday =
     (if m_name m = metric_name \<and> m_value m \<noteq> ''DATA ERROR'' then
        (case py_float (m_value m) of
           Some v \<Rightarrow> Some v
         | None \<Rightarrow> scan_metrics ms metric_name yesterday)
      else scan_metrics ms metric_name yesterday)"

text \<open>
  The outer loop, over the history reversed. It stops on \<^verbatim>\<open>if yesterday: break\<close>,
  a truth test of the float.
\<close>

fun scan_entries :: "snapshot list \<Rightarrow> string \<Rightarrow> real option \<Rightarrow> real option" where
  "scan_entries [] metric_name yesterday = yesterday"
| "scan_entries (entry # older) metric_name yesterday =
     (let y = scan_metrics (entry_metrics entry) metric_name yesterday
      in if truthy y then y else scan_entries older metric_name y)"

definition calculate_volatility :: "real option \<Rightarrow> snapshot list \<Rightarrow> string \<Rightarrow> real option" where
  "calculate_volatility current_value history metric_name =
    (case current_value of
       None \<Rightarrow> None
     | Some cur \<Rightarrow>
         if history = [] then None
         else
           (case scan_entries (rev history) metric_name None of
              None \<Rightarrow> None
            | Some y \<Rightarrow> if y \<noteq> 0 then Some \<bar>cur - y\<bar> else None))"

subsection \<open>Python operations on decoded JSON\<close>

text \<open>
  The exceptions that can leave the operations below. \<open>RequestException\<close> stands for
  every exception of the class \<^verbatim>\<open>requests.exceptions.RequestException\<close>.
\<close>

datatype exn = RequestException | ValueError | TypeError | KeyError | IndexError | AttributeError

fun is_substring :: "string \<Rightarrow> string \<Rightarrow> bool" where
  "is_substring k [] = (k = [])"
| "is_substring k (c # s) = (take (length k) (c # s) = k \<or> is_substring k s)"

fun py_in :: "string \<Rightarrow> json \<Rightarrow> exn + bool" where
  \<comment> \<open>\<^verbatim>\<open>key in x\<close>: a key of a dictionary, an element of a list, a substring of a string\<close>
  "py_in k (JObj d) = Inr (k \<in> set (map fst d))"
| "py_in k (JArr xs) = Inr (JStr k \<in> set xs)"
| "py_in k (JStr s) = Inr (is_substring k s)"
| "py_in k JNull = Inl TypeError"
| "py_in k (JBool b) = Inl TypeError"
| "py_in k (JNum x) = Inl TypeError"

fun py_getitem :: "json \<Rightarrow> string \<Rightarrow> exn + json" where
  \<comment> \<open>\<^verbatim>\<open>x[key]\<close> with a string key\<close>
  "py_getitem (JObj d) k = (case map_of d k of Some v \<Rightarrow> Inr v | None \<Rightarrow> Inl KeyError)"
| "py_getitem (JArr xs) k = Inl TypeError"
| "py_getitem (JStr s) k = Inl TypeError"
| "py_getitem JNull k = Inl TypeError"
| "py_getitem (JBool b) k = Inl TypeError"
| "py_getitem (JNum x) k = Inl TypeError"

fun py_len :: "json \<Rightarrow> exn + nat" where
  "py_len (JObj d) = Inr (length d)"
| "py_len (JArr xs) = Inr (length xs)"
| "py_len (JStr s) = Inr (length s)"
| "py_len JNull = Inl TypeError"
| "py_len (JBool b) = Inl TypeError"
| "py_len (JNum x) = Inl TypeError"

fun py_first :: "json \<Rightarrow> exn + json" where
  \<comment> \<open>\<^verbatim>\<open>x[0]\<close>; the keys of a decoded dictionary are strings, so \<open>0\<close> is none of them\<close>
  "py_first (JArr (x # xs)) = Inr x"
| "py_first (JArr []) = Inl IndexError"
| "py_first (JStr (c # s)) = Inr (JStr [c])"
| "py_first (JStr []) = Inl IndexError"
| "py_first (JObj d) = Inl KeyError"
| "py_first JNull = Inl TypeError"
| "py_first (JBool b) = Inl TypeError"
| "py_first (JNum x) = Inl TypeError"

fun float_of_json :: "json \<Rightarrow> exn + real" where
  \<comment> \<open>\<^verbatim>\<open>float(x)\<close>\<close>
  "float_of_json (JStr s) = (case py_float s of Some v \<Rightarrow> Inr v | None \<Rightarrow> Inl ValueError)"
| "float_of_json (JNum x) = Inr x"
| "float_of_json (JBool b) = Inr (if b then 1 else 0)"
| "float_of_json JNull = Inl TypeError"
| "float_of_json (JArr xs) = Inl TypeError"
| "float_of_json (JObj d) = Inl TypeError"

subsection \<open>Metric fetchers\<close>

text \<open>
  What one HTTP request gives back: \<open>RequestFailed\<close> when \<^verbatim>\<open>requests.get\<close>,
  \<^verbatim>\<open>raise_for_status\<close> or \<^verbatim>\<open>response.json()\<close> raises a
  \<^verbatim>\<open>RequestException\<close> (no connection, a timeout, an HTTP error status, a body that
  does not decode, for which requests 2.27 and later raise a subclass of it), otherwise the
  decoded body.
\<close>

datatype http_reply = RequestFailed | Reply json

text \<open>
  The body of the \<^verbatim>\<open>try\<close> in \<^verbatim>\<open>fetch_fx_rate\<close> once the response is decoded.
  \<^verbatim>\<open>data.get('Error Message')\<close> needs a dictionary.
\<close>

definition fx_rate_of :: "json \<Rightarrow> exn + real option" where
  "fx_rate_of data =
    (case py_in ''Note'' data of
       Inl e \<Rightarrow> Inl e
     | Inr True \<Rightarrow> Inr None
     | Inr False \<Rightarrow>
        (case py_in ''Error Message'' data of
           Inl e \<Rightarrow> Inl e
         | Inr True \<Rightarrow> (case data of JObj d \<Rightarrow> Inr None | _ \<Rightarrow> Inl AttributeError)
         | Inr False \<Rightarrow>
            (case py_in ''Realtime Currency Exchange Rate'' data of
               Inl e \<Rightarrow> Inl e
             | Inr False \<Rightarrow> Inr None
             | Inr True \<Rightarrow>
                (case py_getitem data ''Realtime Currency Exchange Rate'' of
                   Inl e \<Rightarrow> Inl e
                 | Inr inner \<Rightarrow>
                    (case py_in ''5. Exchange Rate'' inner of
                       Inl e \<Rightarrow> Inl e
                     | Inr False \<Rightarrow> Inr None
                     | Inr True \<Rightarrow>
                        (case py_getitem inner ''5. Exchange Rate'' of
                           Inl e \<Rightarrow> Inl e
                         | Inr v \<Rightarrow>
                            (case float_of_json v of
                               Inl e \<Rightarrow> Inl e
                             | Inr rate \<Rightarrow> Inr (Some rate))))))))"

definition fx_attempt :: "http_reply \<Rightarrow> exn + real option" where
  "fx_attempt reply =
    (case reply of RequestFailed \<Rightarrow> Inl RequestException | Reply data \<Rightarrow> fx_rate_of data)"

text \<open>
  The retry loop: \<^verbatim>\<open>except requests.exceptions.RequestException\<close> is the only
  handler, so any other exception leaves the function. The second component counts the
  requests sent.
\<close>

fun fetch_fx_loop :: "(nat \<Rightarrow> http_reply) \<Rightarrow> nat list \<Rightarrow> nat \<Rightarrow> (exn + real option) \<times> nat" where
  "fetch_fx_loop replies [] sent = (Inr None, sent)"
| "fetch_fx_loop replies (attempt # later) sent =
     (case fx_attempt (replies attempt) of
        Inl e \<Rightarrow>
          if e = RequestException then fetch_fx_loop replies later (sent + 1)
          else (Inl e, sent + 1)
      | Inr rate \<Rightarrow> (Inr rate, sent + 1))"

definition fetch_fx_rate :: "(nat \<Rightarrow> http_reply) \<Rightarrow> (exn + real option) \<times> nat" where
  \<comment> \<open>\<^verbatim>\<open>max_retries = 3\<close>, \<^verbatim>\<open>for attempt in range(max_retries)\<close>\<close>
  "fetch_fx_rate replies = fetch_fx_loop replies [0..<3] 0"

text \<open>
  \<^verbatim>\<open>fetch_treasury_yield_10y\<close>: the body of its \<^verbatim>\<open>try\<close>, then the handler
  \<^verbatim>\<open>except Exception\<close>, which catches everything.
\<close>

definition treasury_rate_of :: "json \<Rightarrow> exn + real option" where
  "treasury_rate_of data =
    (case py_in ''data'' data of
       Inl e \<Rightarrow> Inl e
     | Inr False \<Rightarrow> Inr None
     | Inr True \<Rightarrow>
        (case py_getitem data ''data'' of
           Inl e \<Rightarrow> Inl e
         | Inr series \<Rightarrow>
            (case py_len series of
               Inl e \<Rightarrow> Inl e
             | Inr n \<Rightarrow>
                if n > 0 then
                  (case py_first series of
                     Inl e \<Rightarrow> Inl e
                   | Inr latest \<Rightarrow>
                      (case py_getitem latest ''value'' of
                         Inl e \<Rightarrow> Inl e
                       | Inr v \<Rightarrow>
                          (case float_of_json v of
                             Inl e \<Rightarrow> Inl e
                           | Inr rate \<Rightarrow> Inr (Some rate))))
                else Inr None)))"

definition fetch_treasury_yield_10y :: "http_reply \<Rightarrow> exn + real option" where
  "fetch_treasury_yield_10y reply =
    (case (case reply of RequestFailed \<Rightarrow> Inl RequestException | Reply data \<Rightarrow> treasury_rate_of data) of
       Inl e \<Rightarrow> Inr None
     | Inr rate \<Rightarrow> Inr rate)"

subsection \<open>Formatting a float\<close>

text \<open>
  \<^verbatim>\<open>f"{x:.4f}"\<close> and \<^verbatim>\<open>f"{x:.2f}"\<close>: the sign, the whole part and the given
  number of decimals, rounded as \<^verbatim>\<open>round\<close> does.
\<close>

definition digit_char :: "nat \<Rightarrow> char" where
  "digit_char n = char_of (48 + n)"

fun nat_digits :: "nat \<Rightarrow> string" where
  "nat_digits n = (if n < 10 then [digit_char n] else nat_digits (n div 10) @ [digit_char (n mod 10)])"

declare nat_digits.simps [simp del]

definition py_format_f :: "real \<Rightarrow> nat \<Rightarrow> string" where
  "py_format_f x d =
    (let n = nat (round_half_even (\<bar>x\<bar> * 10 ^ d));
         fs = nat_digits (n mod 10 ^ d)
     in (if x < 0 then ''-'' else [])
        @ nat_digits (n div 10 ^ d)
        @ (if d = 0 then [] else CHR ''.'' # replicate (d - length fs) (CHR ''0'') @ fs))"

subsection \<open>Insight generation\<close>

text \<open>
  What the request to the model gives back: \<open>AiFailed msg\<close> when anything up to and
  including \<^verbatim>\<open>result['choices'][0]['message']['content']\<close> raises, \<open>msg\<close> being
  \<^verbatim>\<open>str(e)\<close>; otherwise the text of the answer.
\<close>

datatype ai_reply = AiFailed string | AiContent string

text \<open>
  \<^verbatim>\<open>re.search(r'\{.*\}', content, re.DOTALL)\<close>: the match starts at the first opening
  brace and, the star being greedy and the dot matching every character, ends at the last
  closing brace after it; there is none when no closing brace follows the first opening one.
\<close>

definition json_match :: "string \<Rightarrow> string option" where
  "json_match content =
    (let from_brace = dropWhile (\<lambda>c. c \<noteq> CHR ''{'') content
     in if from_brace \<noteq> [] \<and> CHR ''}'' \<in> set (tl from_brace)
        then Some (rev (dropWhile (\<lambda>c. c \<noteq> CHR ''}'') (rev from_brace)))
        else None)"

definition ui_error :: "string \<Rightarrow> string" where
  \<comment> \<open>the handler's choice of message from \<^verbatim>\<open>error_str = str(e)\<close>\<close>
  "ui_error error_str =
    (if is_substring ''401'' error_str then ''AI Configuration Error: Invalid API Key (401)''
     else if is_substring ''429'' error_str then ''AI Busy: Rate Limit Exceeded (429)''
     else if is_substring ''Expecting value'' error_str \<or> is_substring ''JSON'' error_str
       then ''AI Error: Response Parsing Failed''
     else ''AI Analysis Failed: '' @ take 30 error_str @ ''...'')"

text \<open>
  The body of the \<^verbatim>\<open>try\<close>: \<open>Inl msg\<close> is an exception whose \<^verbatim>\<open>str\<close> is
  \<open>msg\<close>. \<open>loads\<close> is \<^verbatim>\<open>json.loads\<close> on the matched text, which starts with a
  brace: the message of its \<^verbatim>\<open>JSONDecodeError\<close> or the decoded dictionary.
\<close>

definition insights_of_reply ::
  "(string \<Rightarrow> string + (string \<times> json) list) \<Rightarrow> ai_reply \<Rightarrow> string + ai_insights" where
  "insights_of_reply loads reply =
    (case reply of
       AiFailed msg \<Rightarrow> Inl msg
     | AiContent content \<Rightarrow>
        (case json_match content of
           Some json_str \<Rightarrow>
             (case loads json_str of
                Inl msg \<Rightarrow> Inl msg
              | Inr parsed_content \<Rightarrow>
                  Inr \<lparr>stock_picks = dict_get parsed_content ''stock_picks'' (JStr ''Analysis Data Missing''),
                       tasi_opportunities =
                         dict_get parsed_content ''tasi_opportunities'' (JStr ''Analysis Data Missing'')\<rparr>)
         | None \<Rightarrow> Inl ''Could not extract JSON from AI response''))"

definition generate_ai_insights ::
  "string option \<Rightarrow> (string \<Rightarrow> string + (string \<times> json) list) \<Rightarrow> (metric list \<Rightarrow> ai_reply)
    \<Rightarrow> metric list \<Rightarrow> ai_insights" where
  "generate_ai_insights openrouter_key loads ask metrics =
    (if \<not> truthy_str openrouter_key then
       \<lparr>stock_picks = JStr ''AI Analysis Unavailable (Missing API Key)'',
        tasi_opportunities = JStr ''AI Analysis Unavailable (Missing API Key)''\<rparr>
     else
       (case insights_of_reply loads (ask metrics) of
          Inr insights \<Rightarrow> insights
        | Inl error_str \<Rightarrow>
            \<lparr>stock_picks = JStr (ui_error error_str),
             tasi_opportunities = JStr (ui_error error_str)\<rparr>))"

subsection \<open>One cycle\<close>

text \<open>
  What the cycle reads from outside: the two credentials, the replies of the data provider
  (for each currency pair, one per attempt) and of the model, \<^verbatim>\<open>json.loads\<close>, the
  clock (the formatted time and the days left to the target date) and whether each of the
  two files can be opened for writing.
\<close>

record env =
  API_KEY :: "string option"
  OPENROUTER_API_KEY :: "string option"
  fx_replies :: "string \<Rightarrow> nat \<Rightarrow> http_reply"
  treasury_reply :: http_reply
  ai_answer :: "metric list \<Rightarrow> ai_reply"
  json_loads :: "string \<Rightarrow> string + (string \<times> json) list"
  now_utc :: string
  days_left :: int
  data_file_writable :: bool
  history_file_writable :: bool

text \<open>
  What the cycle leaves behind: the two files (\<open>None\<close>: no such file, or for the
  history one that does not load) and the number of HTTP requests sent so far.
\<close>

record world =
  data_file :: "snapshot option"
  history_file :: "snapshot list option"
  requests_sent :: nat

definition load_historical_data :: "world \<Rightarrow> snapshot list" where
  "load_historical_data w = (case history_file w of Some h \<Rightarrow> h | None \<Rightarrow> [])"

definition last_entries :: "nat \<Rightarrow> 'a list \<Rightarrow> 'a list" where
  \<comment> \<open>the slice \<^verbatim>\<open>xs[-n:]\<close> for positive \<open>n\<close>\<close>
  "last_entries n xs = drop (length xs - n) xs"

definition save_historical_data :: "bool \<Rightarrow> snapshot list \<Rightarrow> world \<Rightarrow> world" where
  \<comment> \<open>a failed write is logged; the file is taken to stay as it was\<close>
  "save_historical_data writable history w =
    (if writable then w\<lparr>history_file := Some (last_entries 30 history)\<rparr> else w)"

definition new_metrics ::
  "real option \<Rightarrow> real option \<Rightarrow> real \<Rightarrow> real option \<Rightarrow> real option \<Rightarrow> metric list" where
  "new_metrics usd_jpy usd_cnh move_proxy treasury_10y jpy_volatility =
    [\<lparr>m_name = ''USD/JPY Exchange Rate'',
      m_value = (case usd_jpy of Some v \<Rightarrow> if v \<noteq> 0 then py_format_f v 4 else ''DATA ERROR''
                 | None \<Rightarrow> ''DATA ERROR''),
      m_signal = Some (determine_signal ''USD/JPY Exchange Rate'' usd_jpy jpy_volatility),
      m_volatility_24h =
        Some (case jpy_volatility of Some v \<Rightarrow> if v \<noteq> 0 then py_format_f v 2 else ''N/A''
              | None \<Rightarrow> ''N/A'')\<rparr>,
     \<lparr>m_name = ''USD/CNH (Offshore Yuan) Value'',
      m_value = (case usd_cnh of Some v \<Rightarrow> if v \<noteq> 0 then py_format_f v 4 else ''DATA ERROR''
                 | None \<Rightarrow> ''DATA ERROR''),
      m_signal = Some (determine_signal ''USD/CNH (Offshore Yuan) Value'' usd_cnh None),
      m_volatility_24h = None\<rparr>,
     \<lparr>m_name = ''MOVE Index Volatility (Proxy)'',
      m_value = (if move_proxy \<noteq> 0 then py_format_f move_proxy 2 else ''DATA ERROR''),
      m_signal = Some (determine_signal ''MOVE Index Volatility (Proxy)'' (Some move_proxy) None),
      m_volatility_24h = None\<rparr>,
     \<lparr>m_name = ''10-Year Treasury Yield'',
      m_value = (case treasury_10y of Some v \<Rightarrow> if v \<noteq> 0 then py_format_f v 2 @ ''%'' else ''DATA ERROR''
                 | None \<Rightarrow> ''DATA ERROR''),
      m_signal = Some (determine_signal ''10-Year Treasury Yield'' treasury_10y None),
      m_volatility_24h = None\<rparr>]"

definition final_data :: "env \<Rightarrow> snapshot list \<Rightarrow> real option \<Rightarrow> real option \<Rightarrow> real option \<Rightarrow> snapshot" where
  \<comment> \<open>the cycle from the volatility to the assembled snapshot, given what the fetches returned\<close>
  "final_data e history usd_jpy usd_cnh treasury_10y =
    (let move_proxy = 45.0;
         jpy_volatility =
           (if truthy usd_jpy then calculate_volatility usd_jpy history ''USD/JPY Exchange Rate''
            else None);
         metrics = new_metrics usd_jpy usd_cnh move_proxy treasury_10y jpy_volatility;
         risk = calculate_composite_risk_score metrics;
         insights = generate_ai_insights (OPENROUTER_API_KEY e) (json_loads e) (ai_answer e) metrics
     in \<lparr>s_last_update = now_utc e,
         s_target_date = ''2026-11-28'',
         s_days_remaining = days_left e,
         s_risk_assessment = risk,
         s_metrics = Some metrics,
         s_ai_insights = insights\<rparr>)"

text \<open>
  \<^verbatim>\<open>update_tracing_data\<close>. \<open>Inl\<close>: an exception left a fetch and so the cycle,
  before anything was written. The fetches run in the order of the source; the model is asked
  only when its credential is set.
\<close>

definition update_tracing_data :: "env \<Rightarrow> world \<Rightarrow> exn + world" where
  "update_tracing_data e w =
    (if \<not> truthy_str (API_KEY e) then Inr w
     else
       let history = load_historical_data w
       in case fetch_fx_rate (fx_replies e ''USDJPY'') of
            (Inl ex, n1) \<Rightarrow> Inl ex
          | (Inr usd_jpy, n1) \<Rightarrow>
             (case fetch_fx_rate (fx_replies e ''USDCNH'') of
                (Inl ex, n2) \<Rightarrow> Inl ex
              | (Inr usd_cnh, n2) \<Rightarrow>
                 (case fetch_treasury_yield_10y (treasury_reply e) of
                    Inl ex \<Rightarrow> Inl ex
                  | Inr treasury_10y \<Rightarrow>
                     let snap = final_data e history usd_jpy usd_cnh treasury_10y;
                         w1 = w\<lparr>requests_sent :=
                                 requests_sent w + n1 + n2 + 1
                                 + (if truthy_str (OPENROUTER_API_KEY e) then 1 else 0)\<rparr>;
                         w2 = (if data_file_writable e then w1\<lparr>data_file := Some snap\<rparr> else w1)
                     in Inr (save_historical_data (history_file_writable e) (history @ [snap]) w2))))"

subsection \<open>Notions of the specification\<close>

text \<open>
  The sum of the severity weights of a list of metrics, the number of its metrics whose
  signal is not the error marker, and their quotient, the unweighted mean.
\<close>

definition weight_total :: "metric list \<Rightarrow> int" where
  "weight_total ms = sum_list (map (\<lambda>m. dict_get weights (signal_of m) 0) ms)"

definition scored_count :: "metric list \<Rightarrow> nat" where
  "scored_count ms = length (filter (\<lambda>m. signal_of m \<noteq> ''DATA ERROR'') ms)"

definition mean_weight :: "metric list \<Rightarrow> real" where
  "mean_weight ms = real_of_int (weight_total ms) / real (scored_count ms)"

text \<open>
  The values a history records for a metric, most recent snapshot first: in each snapshot
  the first metric of that name whose value is not the marker and reads as a float.
\<close>

definition candidates :: "metric list \<Rightarrow> string \<Rightarrow> real list" where
  "candidates ms metric_name =
    List.map_filter
      (\<lambda>m. if m_name m = metric_name \<and> m_value m \<noteq> ''DATA ERROR'' then py_float (m_value m)
           else None)
      ms"

definition entry_value :: "snapshot \<Rightarrow> string \<Rightarrow> real option" where
  "entry_value entry metric_name =
    (case candidates (entry_metrics entry) metric_name of [] \<Rightarrow> None | v # _ \<Rightarrow> Some v)"

definition recorded_values :: "snapshot list \<Rightarrow> string \<Rightarrow> real list" where
  "recorded_values history metric_name =
    List.map_filter (\<lambda>entry. entry_value entry metric_name) (rev history)"

definition first_delta :: "real \<Rightarrow> real list \<Rightarrow> real option" where
  "first_delta cur vs = (case vs of [] \<Rightarrow> None | y # _ \<Rightarrow> Some \<bar>cur - y\<bar>)"

subsection \<open>Concrete inputs\<close>

definition with_signal :: "string \<Rightarrow> metric" where
  "with_signal s =
    \<lparr>m_name = ''metric'', m_value = ''1.0000'', m_signal = Some s, m_volatility_24h = None\<rparr>"

definition jpy_snapshot :: "string \<Rightarrow> snapshot" where
  \<comment> \<open>a snapshot whose only metric is the yen rate with the given value text\<close>
  "jpy_snapshot v =
    \<lparr>s_last_update = ''2026-01-01 00:00:00 UTC'', s_target_date = ''2026-11-28'',
     s_days_remaining = 331,
     s_risk_assessment = \<lparr>score = 0, level = ''LOW'', color = ''#28a745''\<rparr>,
     s_metrics = Some [\<lparr>m_name = ''USD/JPY Exchange Rate'', m_value = v,
                        m_signal = Some ''NORMAL'', m_volatility_24h = Some ''N/A''\<rparr>],
     s_ai_insights = \<lparr>stock_picks = JStr ''none'', tasi_opportunities = JStr ''none''\<rparr>\<rparr>"

definition rate_reply :: "string \<Rightarrow> http_reply" where
  \<comment> \<open>the provider's answer to a rate request, with the given text in the rate field\<close>
  "rate_reply r =
    Reply (JObj [(''Realtime Currency Exchange Rate'',
                  JObj [(''1. From_Currency Code'', JStr ''USD''), (''5. Exchange Rate'', JStr r)])])"

definition sample_env :: env where
  "sample_env =
    \<lparr>API_KEY = Some ''demo'', OPENROUTER_API_KEY = Some ''sk-or-demo'',
     fx_replies = (\<lambda>symbol attempt. rate_reply (if symbol = ''USDJPY'' then ''156.5'' else ''7.2'')),
     treasury_reply = RequestFailed,
     ai_answer = (\<lambda>metrics. AiContent ''I cannot help with that.''),
     json_loads = (\<lambda>text. Inl ''Expecting value: line 1 column 1 (char 0)''),
     now_utc = ''2026-01-01 00:00:00 UTC'', days_left = 331,
     data_file_writable = True, history_file_writable = True\<rparr>"

definition fresh_world :: world where
  "fresh_world = \<lparr>data_file = None, history_file = None, requests_sent = 0\<rparr>"

definition parse_failed :: ai_insights where
  \<comment> \<open>both insight fields holding the parse-failure placeholder\<close>
  "parse_failed =
    \<lparr>stock_picks = JStr ''AI Error: Response Parsing Failed'',
     tasi_opportunities = JStr ''AI Error: Response Parsing Failed''\<rparr>"

definition numbered_history :: "nat \<Rightarrow> snapshot list" where
  \<comment> \<open>\<open>n\<close> snapshots that differ in their days remaining\<close>
  "numbered_history n =
    map (\<lambda>k. (jpy_snapshot ''150.0000'')\<lparr>s_days_remaining := int k\<rparr>) [0..<n]"

definition world_31 :: world where
  "world_31 = \<lparr>data_file = None, history_file = Some (numbered_history 31), requests_sent = 0\<rparr>"

definition unquoted_answer :: string where
  \<comment> \<open>an answer whose object has a key without double quotes\<close>
  "unquoted_answer = ''{stock_picks: none}''"

definition unquoted_env :: env where
  \<comment> \<open>the model answers with \<open>unquoted_answer\<close>, for which \<^verbatim>\<open>json.loads\<close> raises a
     \<^verbatim>\<open>JSONDecodeError\<close> with the message given here\<close>
  "unquoted_env =
    sample_env
      \<lparr>ai_answer := (\<lambda>metrics. AiContent unquoted_answer),
       json_loads :=
         (\<lambda>text. Inl ''Expecting property name enclosed in double quotes: line 1 column 2 (char 1)'')\<rparr>"

section \<open>Verified properties\<close>

lemmas float_reading =
  py_float_def strip_def is_space_def parse_number_def parse_exponent_def is_digit_def
  digits_val_def digit_val_def scale10_def

subsection \<open>The classifier\<close>

text \<open>
  C5. For every metric name and every volatility argument (present or absent),
  classifying an absent value returns the DATA ERROR signal.
\<close>

theorem determine_signal_absent:
  "determine_signal metric_name None volatility = ''DATA ERROR''"
  by (simp add: determine_signal_def)

lemma jpy_critical:
  "160 \<le> v \<Longrightarrow>
   determine_signal ''USD/JPY Exchange Rate'' (Some v) volatility = ''CRITICAL SHOCK''"
  by (simp add: determine_signal_def jpy_volatile_signal_def thresholds)

lemma jpy_calm_just_below:
  "vol < 2 \<Longrightarrow>
   determine_signal ''USD/JPY Exchange Rate'' (Some 159.9) (Some vol) = ''HIGH STRESS''"
  by (simp add: determine_signal_def volatility_gate_def thresholds)

text \<open>
  C4. For the yen rate, the value 159.9 is classified HIGH STRESS (not CRITICAL SHOCK)
  whenever the volatility supplied is below 2.0, and also when none is supplied; every
  value of at least 160.0 is classified CRITICAL SHOCK whatever the volatility argument is,
  present or absent.
\<close>

theorem jpy_threshold_160:
  "(vol < 2 \<longrightarrow>
      determine_signal ''USD/JPY Exchange Rate'' (Some 159.9) (Some vol) = ''HIGH STRESS'')
   \<and> determine_signal ''USD/JPY Exchange Rate'' (Some 159.9) None = ''HIGH STRESS''
   \<and> (160 \<le> v \<longrightarrow>
      determine_signal ''USD/JPY Exchange Rate'' (Some v) volatility = ''CRITICAL SHOCK'')"
  using jpy_critical [of v volatility] jpy_calm_just_below [of vol]
  by (simp add: determine_signal_def volatility_gate_def thresholds)

theorem jpy_threshold_160_witness:
  "determine_signal ''USD/JPY Exchange Rate'' (Some 159.9) (Some 1.9) = ''HIGH STRESS''
   \<and> determine_signal ''USD/JPY Exchange Rate'' (Some 160) (Some 5) = ''CRITICAL SHOCK''"
  using jpy_threshold_160 [of "1.9" 160 "Some 5"] by simp

subsection \<open>The composite risk scorer\<close>

text \<open>The loop computes the two totals of the specification.\<close>

lemma score_loop_totals:
  "score_loop ms s t = (s + weight_total ms, t + scored_count ms)"
  by (induction ms arbitrary: s t) (simp_all add: weight_total_def scored_count_def)

lemma composite_score_cases:
  "calculate_composite_risk_score ms =
    (if scored_count ms = 0 then \<lparr>score = 0, level = ''UNKNOWN'', color = ''#6c757d''\<rparr>
     else if mean_weight ms \<ge> 70 then
       \<lparr>score = py_round (mean_weight ms) 1, level = ''CRITICAL'', color = ''#dc3545''\<rparr>
     else if mean_weight ms \<ge> 45 then
       \<lparr>score = py_round (mean_weight ms) 1, level = ''ELEVATED'', color = ''#ffc107''\<rparr>
     else if mean_weight ms \<ge> 20 then
       \<lparr>score = py_round (mean_weight ms) 1, level = ''MODERATE'', color = ''#fd7e14''\<rparr>
     else
       \<lparr>score = py_round (mean_weight ms) 1, level = ''LOW'', color = ''#28a745''\<rparr>)"
  by (simp add: calculate_composite_risk_score_def score_loop_totals mean_weight_def Let_def)

lemma scored_count_zero_iff:
  "scored_count ms = 0 \<longleftrightarrow> (\<forall>m \<in> set ms. signal_of m = ''DATA ERROR'')"
  by (auto simp: scored_count_def filter_empty_conv)

lemma totals_by_signals:
  "weight_total ms = sum_list (map (\<lambda>s. dict_get weights s 0) (map signal_of ms))"
  "scored_count ms = length (filter (\<lambda>s. s \<noteq> ''DATA ERROR'') (map signal_of ms))"
  by (simp_all add: weight_total_def scored_count_def comp_def filter_map)

text \<open>Rounding to one decimal moves a number by at most a twentieth.\<close>

lemma round_half_even_close: "\<bar>real_of_int (round_half_even x) - x\<bar> \<le> 1/2"
  unfolding round_half_even_def Let_def by (auto simp: abs_le_iff)

lemma py_round_1_close: "\<bar>py_round x 1 - x\<bar> \<le> 1/20"
proof -
  have "\<bar>real_of_int (round_half_even (x * 10)) - x * 10\<bar> \<le> 1/2"
    by (rule round_half_even_close)
  then show ?thesis
    by (simp add: py_round_def abs_le_iff field_simps)
qed

lemma py_round_1_tenth: "\<exists>k::int. py_round x 1 = real_of_int k / 10"
  by (auto simp: py_round_def)

text \<open>
  C1 (amended). The severity weights are CRITICAL SHOCK 100, HIGH STRESS + HIGH
  VOLATILITY 80, HIGH STRESS 60, RISING STRESS 30, NORMAL 0 and DATA ERROR 0. For every list
  of metrics with at least one signal other than DATA ERROR, the score returned is the
  unweighted mean of the weights over those metrics rounded to one decimal: a whole number
  of tenths at most 0.05 away from the mean. When every signal is DATA ERROR the result has
  score 0 and level UNKNOWN.
\<close>

theorem composite_score_rounded_mean:
  "(dict_get weights ''CRITICAL SHOCK'' 0 = 100
     \<and> dict_get weights ''HIGH STRESS + HIGH VOLATILITY'' 0 = 80
     \<and> dict_get weights ''HIGH STRESS'' 0 = 60
     \<and> dict_get weights ''RISING STRESS'' 0 = 30
     \<and> dict_get weights ''NORMAL'' 0 = 0
     \<and> dict_get weights ''DATA ERROR'' 0 = 0)
   \<and> (scored_count ms \<noteq> 0 \<longrightarrow>
        score (calculate_composite_risk_score ms) = py_round (mean_weight ms) 1
        \<and> \<bar>score (calculate_composite_risk_score ms) - mean_weight ms\<bar> \<le> 1/20
        \<and> (\<exists>k::int. score (calculate_composite_risk_score ms) = real_of_int k / 10))
   \<and> ((\<forall>m \<in> set ms. signal_of m = ''DATA ERROR'') \<longrightarrow>
        score (calculate_composite_risk_score ms) = 0
        \<and> level (calculate_composite_risk_score ms) = ''UNKNOWN'')"
proof -
  have w: "dict_get weights ''CRITICAL SHOCK'' 0 = 100
     \<and> dict_get weights ''HIGH STRESS + HIGH VOLATILITY'' 0 = 80
     \<and> dict_get weights ''HIGH STRESS'' 0 = 60
     \<and> dict_get weights ''RISING STRESS'' 0 = 30
     \<and> dict_get weights ''NORMAL'' 0 = 0
     \<and> dict_get weights ''DATA ERROR'' 0 = 0"
    by (simp add: dict_get_def weights_def)
  have r: "score (calculate_composite_risk_score ms) = py_round (mean_weight ms) 1"
    if "scored_count ms \<noteq> 0"
    using that by (simp add: composite_score_cases)
  have u: "score (calculate_composite_risk_score ms) = 0
        \<and> level (calculate_composite_risk_score ms) = ''UNKNOWN''"
    if "\<forall>m \<in> set ms. signal_of m = ''DATA ERROR''"
    using that by (simp add: composite_score_cases scored_count_zero_iff)
  from w r u show ?thesis
    using py_round_1_close [of "mean_weight ms"] py_round_1_tenth [of "mean_weight ms"]
    by simp
qed

theorem composite_score_rounded_mean_witness:
  "score (calculate_composite_risk_score
      [with_signal ''CRITICAL SHOCK'', with_signal ''NORMAL'', with_signal ''NORMAL'']) = 33.3
   \<and> score (calculate_composite_risk_score
      [with_signal ''DATA ERROR'', with_signal ''DATA ERROR'', with_signal ''DATA ERROR'',
       with_signal ''DATA ERROR'']) = 0
   \<and> level (calculate_composite_risk_score
      [with_signal ''DATA ERROR'', with_signal ''DATA ERROR'', with_signal ''DATA ERROR'',
       with_signal ''DATA ERROR'']) = ''UNKNOWN''"
  using
    composite_score_rounded_mean
      [of "[with_signal ''CRITICAL SHOCK'', with_signal ''NORMAL'', with_signal ''NORMAL'']"]
    composite_score_rounded_mean
      [of "[with_signal ''DATA ERROR'', with_signal ''DATA ERROR'', with_signal ''DATA ERROR'',
            with_signal ''DATA ERROR'']"]
  by (simp add: mean_weight_def weight_total_def scored_count_def with_signal_def signal_of_def
      dict_get_def weights_def py_round_def round_half_even_def)

text \<open>
  C1 (counterexample). As the specification states it the claim fails: for the signals CRITICAL SHOCK, NORMAL, NORMAL
  the mean is a third of 100 and the score returned is 33.3.
\<close>

theorem composite_score_not_exact_mean:
  "score (calculate_composite_risk_score
       [with_signal ''CRITICAL SHOCK'', with_signal ''NORMAL'', with_signal ''NORMAL''])
     \<noteq> mean_weight [with_signal ''CRITICAL SHOCK'', with_signal ''NORMAL'', with_signal ''NORMAL'']"
  by (simp add: composite_score_cases mean_weight_def weight_total_def scored_count_def
      with_signal_def signal_of_def dict_get_def weights_def py_round_def round_half_even_def)

text \<open>
  C2. For every list of metrics with at least one signal other than DATA ERROR, the level
  is CRITICAL when the mean is at least 70, ELEVATED when it is at least 45, MODERATE when
  it is at least 20 and LOW otherwise; four metrics with the signals CRITICAL SHOCK, NORMAL,
  NORMAL, NORMAL have mean 25, score 25.0 and level MODERATE.
\<close>

theorem composite_level_tiers:
  "(scored_count ms \<noteq> 0 \<longrightarrow>
      level (calculate_composite_risk_score ms) =
        (if mean_weight ms \<ge> 70 then ''CRITICAL''
         else if mean_weight ms \<ge> 45 then ''ELEVATED''
         else if mean_weight ms \<ge> 20 then ''MODERATE''
         else ''LOW''))
   \<and> (map signal_of ms = [''CRITICAL SHOCK'', ''NORMAL'', ''NORMAL'', ''NORMAL''] \<longrightarrow>
        mean_weight ms = 25
        \<and> score (calculate_composite_risk_score ms) = 25
        \<and> level (calculate_composite_risk_score ms) = ''MODERATE'')"
proof -
  have ex: "mean_weight ms = 25 \<and> scored_count ms = 4"
    if "map signal_of ms = [''CRITICAL SHOCK'', ''NORMAL'', ''NORMAL'', ''NORMAL'']"
    using that by (simp add: mean_weight_def totals_by_signals dict_get_def weights_def)
  have r: "py_round 25 1 = 25"
    by (simp add: py_round_def round_half_even_def)
  show ?thesis
    using ex r by (auto simp: composite_score_cases)
qed

theorem composite_level_tiers_witness:
  "level (calculate_composite_risk_score
      [with_signal ''CRITICAL SHOCK'', with_signal ''NORMAL'', with_signal ''NORMAL'',
       with_signal ''NORMAL'']) = ''MODERATE''
   \<and> score (calculate_composite_risk_score
      [with_signal ''CRITICAL SHOCK'', with_signal ''NORMAL'', with_signal ''NORMAL'',
       with_signal ''NORMAL'']) = 25
   \<and> level (calculate_composite_risk_score
      [with_signal ''CRITICAL SHOCK'', with_signal ''HIGH STRESS'']) = ''CRITICAL''"
  using
    composite_level_tiers
      [of "[with_signal ''CRITICAL SHOCK'', with_signal ''NORMAL'', with_signal ''NORMAL'',
            with_signal ''NORMAL'']"]
    composite_level_tiers [of "[with_signal ''CRITICAL SHOCK'', with_signal ''HIGH STRESS'']"]
  by (simp add: mean_weight_def weight_total_def scored_count_def with_signal_def signal_of_def
      dict_get_def weights_def)

subsection \<open>The volatility calculator\<close>

text \<open>
  The inner loop finds the entry's recorded value, the outer loop the first recorded value
  that passes the truth test, that is, the first one that is not zero.
\<close>

lemma scan_metrics_candidates:
  "scan_metrics ms metric_name y =
     (case candidates ms metric_name of [] \<Rightarrow> y | v # _ \<Rightarrow> Some v)"
  by (induction ms) (auto simp: candidates_def split: option.splits)

lemma scan_entry_value:
  "scan_metrics (entry_metrics entry) metric_name y =
     (case entry_value entry metric_name of None \<Rightarrow> y | Some v \<Rightarrow> Some v)"
  by (simp add: scan_metrics_candidates entry_value_def split: list.splits)

lemma scan_entries_nonzero:
  "\<not> truthy y \<Longrightarrow>
   (case scan_entries es metric_name y of
      None \<Rightarrow> None
    | Some v \<Rightarrow> if v \<noteq> 0 then Some v else None)
   = (case filter (\<lambda>v. v \<noteq> 0) (List.map_filter (\<lambda>entry. entry_value entry metric_name) es) of
        [] \<Rightarrow> None
      | v # _ \<Rightarrow> Some v)"
proof (induction es arbitrary: y)
  case Nil
  then show ?case by (cases y) simp_all
next
  case (Cons e es)
  show ?case
  proof (cases "entry_value e metric_name")
    case None
    with Cons show ?thesis by (simp add: scan_entry_value)
  next
    case (Some v)
    show ?thesis
    proof (cases "v = 0")
      case True
      with Some Cons.IH [of "Some 0"] show ?thesis
        by (simp add: scan_entry_value)
    next
      case False
      with Some show ?thesis by (simp add: scan_entry_value)
    qed
  qed
qed

lemma calculate_volatility_skips_zero:
  "calculate_volatility (Some cur) history metric_name =
     first_delta cur (filter (\<lambda>v. v \<noteq> 0) (recorded_values history metric_name))"
proof (cases "history = []")
  case True
  then show ?thesis
    by (simp add: calculate_volatility_def recorded_values_def first_delta_def)
next
  case False
  have "\<not> truthy None" by simp
  from scan_entries_nonzero [OF this, of "rev history" metric_name] False
  show ?thesis
    by (auto simp: calculate_volatility_def recorded_values_def first_delta_def
        split: option.splits list.splits if_splits)
qed

text \<open>
  Where no recorded value is zero the calculator does what the specification says: the
  distance to the most recent recorded value, absent when there is none.
\<close>

lemma calculate_volatility_most_recent:
  assumes "0 \<notin> set (recorded_values history metric_name)"
  shows "calculate_volatility (Some cur) history metric_name =
     first_delta cur (recorded_values history metric_name)"
proof -
  from assms have "filter (\<lambda>v. v \<noteq> 0) (recorded_values history metric_name)
      = recorded_values history metric_name"
    by (auto simp: filter_id_conv)
  then show ?thesis by (simp add: calculate_volatility_skips_zero)
qed

lemma calculate_volatility_absent:
  "calculate_volatility None history metric_name = None"
  "calculate_volatility current_value [] metric_name = None"
  by (simp_all add: calculate_volatility_def split: option.splits)

lemma calculate_volatility_example:
  "calculate_volatility (Some 154) [jpy_snapshot ''150.0'', jpy_snapshot ''152.0'']
     ''USD/JPY Exchange Rate'' = Some 2"
  by (simp add: calculate_volatility_def jpy_snapshot_def entry_metrics_def float_reading)

text \<open>
  C3. The claim fails on the code where the most recent recorded value is zero. With the history
  150.0000, 0.0000 (oldest first) the recorded values are 0 and then 150; for the current
  value 154 the specification asks for the distance to 0, which is 154, and the calculator
  returns 4, the distance to the older 150. With the history 0.0000 alone it returns nothing.
\<close>

theorem volatility_passes_over_zero:
  "recorded_values [jpy_snapshot ''150.0000'', jpy_snapshot ''0.0000''] ''USD/JPY Exchange Rate''
     = [0, 150]
   \<and> calculate_volatility (Some 154) [jpy_snapshot ''150.0000'', jpy_snapshot ''0.0000'']
         ''USD/JPY Exchange Rate'' = Some 4
   \<and> calculate_volatility (Some 154) [jpy_snapshot ''0.0000''] ''USD/JPY Exchange Rate'' = None"
  by (simp add: calculate_volatility_def recorded_values_def entry_value_def candidates_def
      jpy_snapshot_def entry_metrics_def float_reading)

subsection \<open>The metric fetchers\<close>

lemma fetch_treasury_never_raises: "\<exists>r. fetch_treasury_yield_10y reply = Inr r"
  by (simp add: fetch_treasury_yield_10y_def split: sum.splits)

lemma fetch_fx_request_failures: "fetch_fx_rate (\<lambda>attempt. RequestFailed) = (Inr None, 3)"
  by (simp add: fetch_fx_rate_def fx_attempt_def upt_rec)

lemma fetch_fx_rate_limit:
  "fst (fetch_fx_rate (\<lambda>attempt. Reply (JObj [(''Note'', JStr note)]))) = Inr None"
  by (simp add: fetch_fx_rate_def fx_attempt_def fx_rate_of_def upt_rec)

text \<open>
  C6. The claim fails on the code for the rate fetch. When the rate field of the reply holds text that
  is no number, \<^verbatim>\<open>float\<close> raises \<^verbatim>\<open>ValueError\<close>, which the only handler of
  \<^verbatim>\<open>fetch_fx_rate\<close> does not catch: the exception leaves the fetch after one request
  and ends the cycle.
\<close>

theorem fetch_fx_rate_raises_value_error:
  "fetch_fx_rate (\<lambda>attempt. rate_reply ''abc'') = (Inl ValueError, 1)
   \<and> update_tracing_data
        (sample_env\<lparr>fx_replies := \<lambda>symbol attempt. rate_reply ''abc''\<rparr>) fresh_world
       = Inl ValueError"
  by (simp add: update_tracing_data_def sample_env_def fetch_fx_rate_def fx_attempt_def
      fx_rate_of_def rate_reply_def upt_rec float_reading)

subsection \<open>The cycle\<close>

text \<open>
  C8. If the financial-data credential is absent (or empty), the cycle returns at once: the
  world is unchanged, so no request was sent and neither file was written.
\<close>

theorem no_credential_no_cycle:
  "\<not> truthy_str (API_KEY e) \<Longrightarrow> update_tracing_data e w = Inr w"
  by (simp add: update_tracing_data_def)

theorem no_credential_no_cycle_witness:
  "update_tracing_data (sample_env\<lparr>API_KEY := None\<rparr>) fresh_world = Inr fresh_world
   \<and> update_tracing_data (sample_env\<lparr>API_KEY := None\<rparr>)
        \<lparr>data_file = Some (jpy_snapshot ''150.0000''),
         history_file = Some [jpy_snapshot ''150.0000''], requests_sent = 7\<rparr>
      = Inr \<lparr>data_file = Some (jpy_snapshot ''150.0000''),
         history_file = Some [jpy_snapshot ''150.0000''], requests_sent = 7\<rparr>"
  using no_credential_no_cycle [of "sample_env\<lparr>API_KEY := None\<rparr>" fresh_world]
    no_credential_no_cycle [of "sample_env\<lparr>API_KEY := None\<rparr>"
        "\<lparr>data_file = Some (jpy_snapshot ''150.0000''),
         history_file = Some [jpy_snapshot ''150.0000''], requests_sent = 7\<rparr>"]
  by (simp add: sample_env_def)

text \<open>With the credential set and no exception from the two rate fetches the cycle completes.\<close>

lemma cycle_completes:
  assumes "truthy_str (API_KEY e)"
    and "fst (fetch_fx_rate (fx_replies e ''USDJPY'')) = Inr usd_jpy"
    and "fst (fetch_fx_rate (fx_replies e ''USDCNH'')) = Inr usd_cnh"
  shows "\<exists>treasury_10y n.
     update_tracing_data e w =
       Inr (save_historical_data (history_file_writable e)
          (load_historical_data w
             @ [final_data e (load_historical_data w) usd_jpy usd_cnh treasury_10y])
          (if data_file_writable e
           then w\<lparr>requests_sent := n,
                  data_file :=
                    Some (final_data e (load_historical_data w) usd_jpy usd_cnh treasury_10y)\<rparr>
           else w\<lparr>requests_sent := n\<rparr>))"
proof -
  obtain treasury_10y where t: "fetch_treasury_yield_10y (treasury_reply e) = Inr treasury_10y"
    using fetch_treasury_never_raises by blast
  obtain n1 where j: "fetch_fx_rate (fx_replies e ''USDJPY'') = (Inr usd_jpy, n1)"
    using assms(2) by (cases "fetch_fx_rate (fx_replies e ''USDJPY'')") simp
  obtain n2 where c: "fetch_fx_rate (fx_replies e ''USDCNH'') = (Inr usd_cnh, n2)"
    using assms(3) by (cases "fetch_fx_rate (fx_replies e ''USDCNH'')") simp
  show ?thesis
    using assms(1) t j c
    by (auto simp: update_tracing_data_def Let_def)
qed

lemma sample_cycle_runs: "\<exists>w'. update_tracing_data sample_env w = Inr w'"
proof -
  have 1: "truthy_str (API_KEY sample_env)" by (simp add: sample_env_def)
  have j: "fetch_fx_rate (fx_replies sample_env ''USDJPY'') = (Inr (Some 156.5), 1)"
    by (simp add: sample_env_def fetch_fx_rate_def fx_attempt_def fx_rate_of_def rate_reply_def
        upt_rec float_reading)
  have c: "fetch_fx_rate (fx_replies sample_env ''USDCNH'') = (Inr (Some 7.2), 1)"
    by (simp add: sample_env_def fetch_fx_rate_def fx_attempt_def fx_rate_of_def rate_reply_def
        upt_rec float_reading)
  have t: "fetch_treasury_yield_10y (treasury_reply sample_env) = Inr None"
    by (simp add: sample_env_def fetch_treasury_yield_10y_def)
  show ?thesis
    using 1 j c t by (simp add: update_tracing_data_def Let_def)
qed

subsection \<open>The history window\<close>

lemma last_entries_length: "length (last_entries n xs) = min n (length xs)"
  by (simp add: last_entries_def)

lemma last_entries_suffix: "\<exists>older. xs = older @ last_entries n xs"
  unfolding last_entries_def by (metis append_take_drop_id)

lemma last_entries_31: "length old = 31 \<Longrightarrow> last_entries 30 (old @ [x]) = drop 2 old @ [x]"
  by (simp add: last_entries_def)

lemma oldest_dropped:
  assumes "length old = 31" "distinct old"
  shows "hd old \<notin> set (drop 2 old)"
proof -
  from assms(1) obtain a b rest where o: "old = a # b # rest"
    by (cases old; cases "tl old") auto
  with assms(2) show ?thesis by auto
qed

lemma cycle_history:
  assumes "truthy_str (API_KEY e)" "history_file_writable e" "update_tracing_data e w = Inr w'"
  shows "\<exists>snap. history_file w' = Some (last_entries 30 (load_historical_data w @ [snap]))"
  using assms
  by (auto simp: update_tracing_data_def save_historical_data_def Let_def
      split: prod.splits sum.splits if_splits)

text \<open>
  C7. After a cycle that saves the history, the history file holds the loaded history with
  the new snapshot appended, cut to its last 30 entries: an end piece of that list, of
  length 30 or of the whole length if that is less, whose last element is the new snapshot.
  When 31 entries were loaded, exactly 30 are kept, the two oldest are gone and the new
  snapshot is last; if the loaded entries are distinct the oldest of them is not among
  those kept from the loaded ones.
\<close>

theorem saved_history_window:
  assumes "truthy_str (API_KEY e)" "history_file_writable e" "update_tracing_data e w = Inr w'"
  shows "\<exists>snap kept older.
      history_file w' = Some kept
      \<and> load_historical_data w @ [snap] = older @ kept
      \<and> length kept = min 30 (length (load_historical_data w) + 1)
      \<and> last kept = snap
      \<and> (length (load_historical_data w) = 31 \<longrightarrow>
           length kept = 30 \<and> kept = drop 2 (load_historical_data w) @ [snap]
           \<and> (distinct (load_historical_data w) \<longrightarrow>
                 hd (load_historical_data w) \<notin> set (drop 2 (load_historical_data w))))"
proof -
  let ?h = "load_historical_data w"
  from cycle_history [OF assms] obtain snap where
    s: "history_file w' = Some (last_entries 30 (?h @ [snap]))" by blast
  obtain older where o: "?h @ [snap] = older @ last_entries 30 (?h @ [snap])"
    using last_entries_suffix by blast
  have l: "last (last_entries 30 (?h @ [snap])) = snap"
    by (simp add: last_entries_def)
  have n: "length (last_entries 30 (?h @ [snap])) = min 30 (length ?h + 1)"
    by (simp add: last_entries_length)
  have d: "length ?h = 31 \<longrightarrow>
           length (last_entries 30 (?h @ [snap])) = 30
           \<and> last_entries 30 (?h @ [snap]) = drop 2 ?h @ [snap]
           \<and> (distinct ?h \<longrightarrow> hd ?h \<notin> set (drop 2 ?h))"
    using oldest_dropped [of ?h] by (simp add: last_entries_31)
  from s o l n d show ?thesis by blast
qed

lemma numbered_history_distinct: "distinct (numbered_history n)"
proof -
  have "inj (\<lambda>k. (jpy_snapshot ''150.0000'')\<lparr>s_days_remaining := int k\<rparr>)"
  proof (rule injI)
    fix x y :: nat
    assume "(jpy_snapshot ''150.0000'')\<lparr>s_days_remaining := int x\<rparr>
          = (jpy_snapshot ''150.0000'')\<lparr>s_days_remaining := int y\<rparr>"
    then have "s_days_remaining ((jpy_snapshot ''150.0000'')\<lparr>s_days_remaining := int x\<rparr>)
          = s_days_remaining ((jpy_snapshot ''150.0000'')\<lparr>s_days_remaining := int y\<rparr>)"
      by (rule arg_cong)
    then show "x = y" by simp
  qed
  then show ?thesis
    by (simp add: numbered_history_def distinct_map inj_on_def)
qed

theorem saved_history_window_witness:
  "\<exists>w' kept snap. update_tracing_data sample_env world_31 = Inr w'
     \<and> history_file w' = Some kept \<and> length kept = 30
     \<and> kept = drop 2 (numbered_history 31) @ [snap]
     \<and> hd (numbered_history 31) \<notin> set (drop 2 (numbered_history 31))"
proof -
  have 1: "truthy_str (API_KEY sample_env)" by (simp add: sample_env_def)
  have 2: "history_file_writable sample_env" by (simp add: sample_env_def)
  obtain w' where 3: "update_tracing_data sample_env world_31 = Inr w'"
    using sample_cycle_runs by blast
  have h: "load_historical_data world_31 = numbered_history 31"
    by (simp add: load_historical_data_def world_31_def)
  have n: "length (numbered_history 31) = 31"
    by (simp add: numbered_history_def)
  from saved_history_window [OF 1 2 3] obtain snap kept where
    k: "history_file w' = Some kept"
    and w: "length (numbered_history 31) = 31 \<longrightarrow>
           length kept = 30 \<and> kept = drop 2 (numbered_history 31) @ [snap]
           \<and> (distinct (numbered_history 31) \<longrightarrow>
                 hd (numbered_history 31) \<notin> set (drop 2 (numbered_history 31)))"
    unfolding h by blast
  from w n numbered_history_distinct [of 31]
  have "length kept = 30" "kept = drop 2 (numbered_history 31) @ [snap]"
    "hd (numbered_history 31) \<notin> set (drop 2 (numbered_history 31))"
    by blast+
  with 3 k show ?thesis by blast
qed

subsection \<open>Insights\<close>

text \<open>
  The search finds a match exactly when the text has an opening brace with a closing brace
  somewhere after it.
\<close>

lemma json_match_Some_intro:
  assumes "content = a @ CHR ''{'' # b @ CHR ''}'' # c"
  shows "json_match content \<noteq> None"
proof -
  let ?P = "\<lambda>ch. ch \<noteq> CHR ''{''"
  have "CHR ''{'' \<in> set content" using assms by simp
  then obtain pre rest where pr: "content = pre @ CHR ''{'' # rest" "CHR ''{'' \<notin> set pre"
    by (meson split_list_first)
  then have dw: "dropWhile ?P content = CHR ''{'' # rest"
    by (auto simp: dropWhile_append3)
  have "CHR ''}'' \<in> set rest"
  proof -
    have le: "length pre \<le> length a"
    proof (rule ccontr)
      assume "\<not> length pre \<le> length a"
      then have lt: "length a < length pre" by simp
      then have "pre ! length a = content ! length a"
        using pr(1) by (simp add: nth_append)
      also have "\<dots> = CHR ''{''" using assms by (simp add: nth_append)
      finally have "CHR ''{'' \<in> set pre"
        using lt by (metis nth_mem)
      with pr(2) show False by simp
    qed
    have "drop (Suc (length pre)) content = rest" using pr(1) by simp
    moreover have "drop (Suc (length a)) content = b @ CHR ''}'' # c" using assms by simp
    moreover have "set (drop (Suc (length a)) content) \<subseteq> set (drop (Suc (length pre)) content)"
      using le by (simp add: set_drop_subset_set_drop)
    ultimately show ?thesis by auto
  qed
  with dw show ?thesis by (simp add: json_match_def)
qed

lemma json_match_Some_elim:
  assumes "json_match content \<noteq> None"
  shows "\<exists>a b c. content = a @ CHR ''{'' # b @ CHR ''}'' # c"
proof -
  let ?P = "\<lambda>ch. ch \<noteq> CHR ''{''"
  from assms have ne: "dropWhile ?P content \<noteq> []"
    and cl: "CHR ''}'' \<in> set (tl (dropWhile ?P content))"
    by (auto simp: json_match_def Let_def split: if_splits)
  from ne have "hd (dropWhile ?P content) = CHR ''{''"
    using hd_dropWhile [of ?P content] by simp
  with ne obtain rest where r: "dropWhile ?P content = CHR ''{'' # rest"
    by (cases "dropWhile ?P content") auto
  with cl obtain b c where "rest = b @ CHR ''}'' # c"
    by (auto dest: split_list)
  with r have "content = takeWhile ?P content @ CHR ''{'' # b @ CHR ''}'' # c"
    by (metis takeWhile_dropWhile_id)
  then show ?thesis by blast
qed

lemma json_match_None_iff:
  "json_match content = None \<longleftrightarrow> \<not> (\<exists>a b c. content = a @ CHR ''{'' # b @ CHR ''}'' # c)"
  using json_match_Some_intro json_match_Some_elim by blast

lemma ui_error_no_match:
  "ui_error ''Could not extract JSON from AI response'' = ''AI Error: Response Parsing Failed''"
  by (simp add: ui_error_def)

lemma insights_no_match:
  assumes "truthy_str key" "ask ms = AiContent content" "json_match content = None"
  shows "generate_ai_insights key loads ask ms = parse_failed"
  using assms
  by (simp add: generate_ai_insights_def insights_of_reply_def ui_error_no_match parse_failed_def)

text \<open>
  When the model is asked (its credential is set) and answers with text in which the search
  finds nothing, both insight fields are the parse-failure placeholder, and a cycle whose
  rate fetches returned completes: the snapshot it writes to the data file and appends to
  the history holds those placeholders.
\<close>

lemma no_match_gives_parse_placeholders:
  assumes "truthy_str (OPENROUTER_API_KEY e)"
    and "\<forall>ms. \<exists>content. ai_answer e ms = AiContent content \<and> json_match content = None"
    and "truthy_str (API_KEY e)"
    and "fst (fetch_fx_rate (fx_replies e ''USDJPY'')) = Inr usd_jpy"
    and "fst (fetch_fx_rate (fx_replies e ''USDCNH'')) = Inr usd_cnh"
  shows "generate_ai_insights (OPENROUTER_API_KEY e) (json_loads e) (ai_answer e) ms = parse_failed
    \<and> (\<exists>w'. update_tracing_data e w = Inr w'
          \<and> (data_file_writable e \<longrightarrow>
                (\<exists>snap. data_file w' = Some snap \<and> s_ai_insights snap = parse_failed))
          \<and> (history_file_writable e \<longrightarrow>
                (\<exists>h. history_file w' = Some h \<and> h \<noteq> []
                     \<and> s_ai_insights (last h) = parse_failed)))"
proof -
  have g: "generate_ai_insights (OPENROUTER_API_KEY e) (json_loads e) (ai_answer e) ms'
      = parse_failed" for ms'
    using assms(1,2) insights_no_match [of "OPENROUTER_API_KEY e" "ai_answer e" ms'] by blast
  then have f: "s_ai_insights (final_data e h a b c) = parse_failed" for h a b c
    by (simp add: final_data_def Let_def)
  from cycle_completes [OF assms(3,4,5), of w] obtain t n where
    u: "update_tracing_data e w =
       Inr (save_historical_data (history_file_writable e)
          (load_historical_data w @ [final_data e (load_historical_data w) usd_jpy usd_cnh t])
          (if data_file_writable e
           then w\<lparr>requests_sent := n,
                  data_file := Some (final_data e (load_historical_data w) usd_jpy usd_cnh t)\<rparr>
           else w\<lparr>requests_sent := n\<rparr>))"
    by blast
  have "last (last_entries 30 (xs @ [x])) = x" "last_entries 30 (xs @ [x]) \<noteq> []"
    for xs :: "snapshot list" and x
    by (simp_all add: last_entries_def)
  with u f g show ?thesis
    by (simp add: save_historical_data_def)
qed

lemma no_match_example:
  "generate_ai_insights (OPENROUTER_API_KEY sample_env) (json_loads sample_env)
      (ai_answer sample_env) [] = parse_failed
    \<and> (\<exists>w'. update_tracing_data sample_env fresh_world = Inr w'
          \<and> (\<exists>snap. data_file w' = Some snap \<and> s_ai_insights snap = parse_failed)
          \<and> (\<exists>h. history_file w' = Some h \<and> h \<noteq> []
                 \<and> s_ai_insights (last h) = parse_failed))"
proof -
  have 1: "truthy_str (OPENROUTER_API_KEY sample_env)" by (simp add: sample_env_def)
  have 2: "\<forall>ms. \<exists>content. ai_answer sample_env ms = AiContent content \<and> json_match content = None"
    by (simp add: sample_env_def json_match_def)
  have 3: "truthy_str (API_KEY sample_env)" by (simp add: sample_env_def)
  have 4: "fst (fetch_fx_rate (fx_replies sample_env ''USDJPY'')) = Inr (Some 156.5)"
    by (simp add: sample_env_def fetch_fx_rate_def fx_attempt_def fx_rate_of_def rate_reply_def
        upt_rec float_reading)
  have 5: "fst (fetch_fx_rate (fx_replies sample_env ''USDCNH'')) = Inr (Some 7.2)"
    by (simp add: sample_env_def fetch_fx_rate_def fx_attempt_def fx_rate_of_def rate_reply_def
        upt_rec float_reading)
  have 6: "data_file_writable sample_env" "history_file_writable sample_env"
    by (simp_all add: sample_env_def)
  from no_match_gives_parse_placeholders [OF 1 2 3 4 5, of "[]" fresh_world] 6
  show ?thesis by simp
qed

text \<open>
  Whatever the answer, both fields get one and the same value whenever the body of the
  \<^verbatim>\<open>try\<close> raised.
\<close>

lemma failed_insights_agree:
  assumes "truthy_str key" "insights_of_reply loads (ask ms) = Inl msg"
  shows "generate_ai_insights key loads ask ms =
     \<lparr>stock_picks = JStr (ui_error msg), tasi_opportunities = JStr (ui_error msg)\<rparr>"
  using assms by (simp add: generate_ai_insights_def)

text \<open>
  C9. The claim fails on the code where the answer has a brace pair that does not decode. For the
  answer \<^verbatim>\<open>{stock_picks: none}\<close> the search matches the whole text, the decoder
  raises with a message that has neither \<^verbatim>\<open>Expecting value\<close> nor \<^verbatim>\<open>JSON\<close>
  in it, and both fields get the generic placeholder, not the parse-failure one. The cycle
  still completes.
\<close>

theorem undecodable_answer_gets_generic_placeholder:
  "json_match unquoted_answer = Some unquoted_answer
   \<and> generate_ai_insights (OPENROUTER_API_KEY unquoted_env) (json_loads unquoted_env)
        (ai_answer unquoted_env) ms
       = \<lparr>stock_picks = JStr ''AI Analysis Failed: Expecting property name enclos...'',
          tasi_opportunities = JStr ''AI Analysis Failed: Expecting property name enclos...''\<rparr>
   \<and> generate_ai_insights (OPENROUTER_API_KEY unquoted_env) (json_loads unquoted_env)
        (ai_answer unquoted_env) ms \<noteq> parse_failed"
  by (simp add: unquoted_env_def unquoted_answer_def sample_env_def json_match_def
      generate_ai_insights_def insights_of_reply_def ui_error_def parse_failed_def)

subsection \<open>A fetched value of zero\<close>

text \<open>
  C10. A rate fetch can return exactly 0.0. The metric assembled from a fetched 0.0 (for the
  yen rate, the yuan rate or the treasury yield) has the marker DATA ERROR as its value and
  NORMAL as its signal, so it counts in the divisor of the composite score: with the yen
  rate 0.0 and the other two fetches failed two metrics are scored and the result is 15.0,
  LOW, where with the yen rate absent one metric is scored and the result is 30.0, MODERATE.
\<close>

theorem zero_value_marked_but_scored:
  "fst (fetch_fx_rate (\<lambda>attempt. rate_reply ''0.0'')) = Inr (Some 0)
   \<and> m_value (new_metrics (Some 0) usd_cnh move_proxy treasury_10y jpy_volatility ! 0)
       = ''DATA ERROR''
   \<and> m_signal (new_metrics (Some 0) usd_cnh move_proxy treasury_10y jpy_volatility ! 0)
       = Some ''NORMAL''
   \<and> m_value (new_metrics usd_jpy (Some 0) move_proxy treasury_10y jpy_volatility ! 1)
       = ''DATA ERROR''
   \<and> m_signal (new_metrics usd_jpy (Some 0) move_proxy treasury_10y jpy_volatility ! 1)
       = Some ''NORMAL''
   \<and> m_value (new_metrics usd_jpy usd_cnh move_proxy (Some 0) jpy_volatility ! 3)
       = ''DATA ERROR''
   \<and> m_signal (new_metrics usd_jpy usd_cnh move_proxy (Some 0) jpy_volatility ! 3)
       = Some ''NORMAL''
   \<and> scored_count (new_metrics (Some 0) None 45 None None) = 2
   \<and> scored_count (new_metrics None None 45 None None) = 1
   \<and> calculate_composite_risk_score (new_metrics (Some 0) None 45 None None)
       = \<lparr>score = 15, level = ''LOW'', color = ''#28a745''\<rparr>
   \<and> calculate_composite_risk_score (new_metrics None None 45 None None)
       = \<lparr>score = 30, level = ''MODERATE'', color = ''#fd7e14''\<rparr>"
  by (simp add: new_metrics_def determine_signal_def volatility_gate_def jpy_volatile_signal_def
      thresholds fetch_fx_rate_def fx_attempt_def fx_rate_of_def rate_reply_def upt_rec
      float_reading scored_count_def signal_of_def calculate_composite_risk_score_def
      dict_get_def weights_def py_round_def round_half_even_def)

end
